theory Spec2Isabelle
  imports Complex_Main
begin

section \<open>Python values\<close>

text \<open>
  A Python \<open>str\<close> is modelled as a \<open>string\<close> whose characters are code points below 256.
  An exception is a value: its class name and the text that \<open>str(exc)\<close> gives.
\<close>

datatype exn = PyExc (exc_class: string) (exc_str: string)

text \<open>
  The characters that \<open>str.strip()\<close> removes (those for which \<open>str.isspace\<close> holds), among
  the code points below 256: tab to carriage return, the four separators 28 to 31, space,
  next-line (133) and no-break space (160).
\<close>

definition isspace :: "char \<Rightarrow> bool" where
  "isspace c =
     (let n = (of_char c :: nat)
      in (9 \<le> n \<and> n \<le> 13) \<or> (28 \<le> n \<and> n \<le> 32) \<or> n = 133 \<or> n = 160)"

definition strip :: "string \<Rightarrow> string" where
  "strip s = rev (dropWhile isspace (rev (dropWhile isspace s)))"

text \<open>\<open>sep.join(parts)\<close>\<close>

fun join :: "string \<Rightarrow> string list \<Rightarrow> string" where
  "join sep [] = []"
| "join sep [x] = x"
| "join sep (x # y # ys) = x @ sep @ join sep (y # ys)"

section \<open>Document loader\<close>

text \<open>
  The data directory maps a file name to the file stored under it; a name that is not
  a regular file is absent (\<open>path.is_file()\<close> is false). What the code can observe of a
  file is the outcome of the two library calls it makes on it:
  \<open>path.read_text(encoding="utf-8")\<close>, which gives the decoded text or raises, and
  \<open>PdfReader(str(path)).pages\<close> with \<open>page.extract_text()\<close> on each page, which gives the
  text of each page in order (\<open>None\<close> for a page without a text result) or raises.
\<close>

record data_file =
  read_text :: "exn + string"
  pdf_pages :: "exn + string option list"

type_synonym data_dir = "string \<Rightarrow> data_file option"

definition read_text_file :: "data_dir \<Rightarrow> string \<Rightarrow> exn + string" where
  "read_text_file fs path =
     (case fs path of
        Some f \<Rightarrow> read_text f
      | None \<Rightarrow> Inr [])"

text \<open>\<open>page.extract_text() or ""\<close>\<close>

fun or_empty :: "string option \<Rightarrow> string" where
  "or_empty None = []"
| "or_empty (Some t) = t"

text \<open>The loop over \<open>reader.pages\<close>, with \<open>text_parts\<close> as its accumulator.\<close>

fun collect_pages :: "string option list \<Rightarrow> string list \<Rightarrow> string list" where
  "collect_pages [] text_parts = text_parts"
| "collect_pages (page # pages) text_parts =
     (let content = or_empty page
      in if content \<noteq> [] then collect_pages pages (text_parts @ [content])
         else collect_pages pages text_parts)"

definition read_pdf_file :: "data_dir \<Rightarrow> string \<Rightarrow> exn + string" where
  "read_pdf_file fs path =
     (case fs path of
        None \<Rightarrow> Inr []
      | Some f \<Rightarrow>
          (case pdf_pages f of
             Inl e \<Rightarrow> Inl e
           | Inr pages \<Rightarrow> Inr (join ''\<newline>'' (collect_pages pages []))))"

definition load_section :: "data_dir \<Rightarrow> string \<Rightarrow> exn + string" where
  "load_section fs name =
     (let txt_path = name @ ''.txt'';
          pdf_path = name @ ''.pdf''
      in case read_text_file fs txt_path of
           Inl e \<Rightarrow> Inl e
         | Inr text \<Rightarrow>
             (case (if strip text = [] then read_pdf_file fs pdf_path else Inr text) of
                Inl e \<Rightarrow> Inl e
              | Inr text \<Rightarrow>
                  if name = ''resume'' \<and> strip text = []
                  then read_pdf_file fs ''Ashish_Jaiswal.pdf''
                  else Inr text))"

section \<open>Profile context\<close>

definition no_profile_data :: string where
  "no_profile_data =
     ''No profile data is available yet. Please add your resume/LinkedIn text or PDFs '' @
     ''to the data/ directory as resume.txt / resume.pdf and linkedin.txt / linkedin.pdf.''"

definition build_profile_context :: "data_dir \<Rightarrow> exn + string" where
  "build_profile_context fs =
     (case load_section fs ''resume'' of
        Inl e \<Rightarrow> Inl e
      | Inr resume \<Rightarrow>
          (case load_section fs ''linkedin'' of
             Inl e \<Rightarrow> Inl e
           | Inr linkedin \<Rightarrow>
               (let parts0 = [];
                    parts1 = (if strip resume \<noteq> []
                              then parts0 @ [''## Resume\<newline>'' @ resume] else parts0);
                    parts2 = (if strip linkedin \<noteq> []
                              then parts1 @ [''## LinkedIn Profile\<newline>'' @ linkedin]
                              else parts1);
                    parts3 = (if parts2 = [] then parts2 @ [no_profile_data] else parts2)
                in Inr (join ''\<newline>\<newline>'' parts3))))"

section \<open>Prompt assembly at process start\<close>

text \<open>
  The module-level assignments run once, when the process starts: they read the
  environment and the data directory and leave the values that every later request sees.
\<close>

record app_state =
  PERSON_NAME :: string
  PROFILE_CONTEXT :: string
  DEFAULT_MODEL :: string
  SYSTEM_PROMPT :: string

definition getenv :: "(string \<Rightarrow> string option) \<Rightarrow> string \<Rightarrow> string \<Rightarrow> string" where
  "getenv env key dflt = (case env key of None \<Rightarrow> dflt | Some v \<Rightarrow> v)"

definition system_prompt_text :: "string \<Rightarrow> string \<Rightarrow> string" where
  "system_prompt_text person profile =
     ''You are acting as '' @ person @
     ''. You are answering questions from recruiters about '' @
     person @ '''s career, background, skills, and experience. Your responsibility is to '' @
     ''represent '' @ person @
     '' as faithfully and accurately as possible, based only on the '' @
     ''information provided.\<newline>\<newline>'' @
     ''Use the resume and LinkedIn information below to answer questions. If you don't know '' @
     ''the answer from this information, say that you are not sure instead of inventing details.\<newline>\<newline>'' @
     profile"

definition startup :: "(string \<Rightarrow> string option) \<Rightarrow> data_dir \<Rightarrow> exn + app_state" where
  "startup env fs =
     (if getenv env ''OPENAI_API_KEY'' [] = []
      then Inl (PyExc ''RuntimeError''
             (''OPENAI_API_KEY environment variable is not set. Set it locally in a .env file '' @
              ''or as an environment variable / GitHub secret in your deployment platform.''))
      else case build_profile_context fs of
             Inl e \<Rightarrow> Inl e
           | Inr profile \<Rightarrow>
               (let person = getenv env ''PERSON_NAME'' ''Your Name''
                in Inr \<lparr>PERSON_NAME = person,
                        PROFILE_CONTEXT = profile,
                        DEFAULT_MODEL = getenv env ''OPENAI_MODEL'' ''gpt-4o-mini'',
                        SYSTEM_PROMPT = system_prompt_text person profile\<rparr>))"

section \<open>Chat relay\<close>

text \<open>
  The value that \<open>request.get_json(force=True)\<close> returns: \<open>None\<close>, a bool, an int, a float,
  a str, a list or a dict with string keys (an association list read with \<open>map_of\<close>).
\<close>

datatype pyfloat = Finite real | Infinity bool | NaN

datatype json =
    JNull
  | JBool bool
  | JInt int
  | JFloat pyfloat
  | JStr string
  | JArr "json list"
  | JObj "(string \<times> json) list"

text \<open>Python's truth value of an object, as \<open>or\<close>, \<open>not\<close> and \<open>if\<close> test it.\<close>

fun truthy :: "json \<Rightarrow> bool" where
  "truthy JNull = False"
| "truthy (JBool b) = b"
| "truthy (JInt i) = (i \<noteq> 0)"
| "truthy (JFloat f) = (f \<noteq> Finite 0)"
| "truthy (JStr s) = (s \<noteq> [])"
| "truthy (JArr xs) = (xs \<noteq> [])"
| "truthy (JObj kvs) = (kvs \<noteq> [])"

definition py_or :: "json \<Rightarrow> json \<Rightarrow> json" where
  "py_or a b = (if truthy a then a else b)"

fun type_name :: "json \<Rightarrow> string" where
  "type_name JNull = ''NoneType''"
| "type_name (JBool b) = ''bool''"
| "type_name (JInt i) = ''int''"
| "type_name (JFloat f) = ''float''"
| "type_name (JStr s) = ''str''"
| "type_name (JArr xs) = ''list''"
| "type_name (JObj kvs) = ''dict''"

definition quoted :: "string \<Rightarrow> string" where
  "quoted s = [CHR 0x27] @ s @ [CHR 0x27]"

definition no_attribute :: "json \<Rightarrow> string \<Rightarrow> exn" where
  "no_attribute v attr =
     PyExc ''AttributeError'' (quoted (type_name v) @ '' object has no attribute '' @ quoted attr)"

text \<open>\<open>v.get(key)\<close>: only a dict has the method; a key that is absent gives \<open>None\<close>.\<close>

fun dict_get :: "json \<Rightarrow> string \<Rightarrow> exn + json" where
  "dict_get (JObj kvs) key = Inr (case map_of kvs key of None \<Rightarrow> JNull | Some v \<Rightarrow> v)"
| "dict_get v key = Inl (no_attribute v ''get'')"

text \<open>\<open>v.strip()\<close>: only a str has the method.\<close>

fun str_strip :: "json \<Rightarrow> exn + string" where
  "str_strip (JStr s) = Inr (strip s)"
| "str_strip v = Inl (no_attribute v ''strip'')"

text \<open>
  The items that \<open>for item in v\<close> visits: the elements of a list, the characters of a str,
  the keys of a dict; any other value is not iterable.
\<close>

fun py_iter :: "json \<Rightarrow> exn + json list" where
  "py_iter (JArr xs) = Inr xs"
| "py_iter (JStr s) = Inr (map (\<lambda>c. JStr [c]) s)"
| "py_iter (JObj kvs) = Inr (map (\<lambda>kv. JStr (fst kv)) kvs)"
| "py_iter v = Inl (PyExc ''TypeError'' (quoted (type_name v) @ '' object is not iterable''))"

record message =
  role :: string
  content :: string

text \<open>The loop over \<open>history\<close>, with \<open>normalized_history\<close> as its accumulator.\<close>

fun normalize_history :: "json list \<Rightarrow> message list \<Rightarrow> message list" where
  "normalize_history [] normalized_history = normalized_history"
| "normalize_history (JObj kvs # rest) normalized_history =
     (let r = (case map_of kvs ''role'' of None \<Rightarrow> JNull | Some v \<Rightarrow> v);
          c = (case map_of kvs ''content'' of None \<Rightarrow> JNull | Some v \<Rightarrow> v)
      in case (r, c) of
           (JStr rs, JStr cs) \<Rightarrow>
             if rs = ''user'' \<or> rs = ''assistant''
             then normalize_history rest (normalized_history @ [\<lparr>role = rs, content = cs\<rparr>])
             else normalize_history rest normalized_history
         | _ \<Rightarrow> normalize_history rest normalized_history)"
| "normalize_history (item # rest) normalized_history =
     normalize_history rest normalized_history"

text \<open>
  The completion service is a parameter: given the model identifier and the message
  sequence, \<open>client.chat.completions.create\<close> returns a completion (the message content
  of each of its choices, \<open>None\<close> when a choice has none) or raises an \<open>Exception\<close>.
  Every call the handler makes is recorded, in order.
\<close>

datatype completion = Completion (choices: "string option list")

type_synonym completion_api = "string \<Rightarrow> message list \<Rightarrow> exn + completion"

record api_call =
  call_model :: string
  call_messages :: "message list"

text \<open>\<open>jsonify(body), status\<close>\<close>

datatype response = Response (status: nat) (body: "(string \<times> json) list")

definition chat :: "app_state \<Rightarrow> completion_api \<Rightarrow> json \<Rightarrow> (exn + response) \<times> api_call list" where
  "chat st create request_json =
     (let data = py_or request_json (JObj [])
      in case dict_get data ''message'' of
           Inl e \<Rightarrow> (Inl e, [])
         | Inr m \<Rightarrow>
        (case str_strip (py_or m (JStr [])) of
           Inl e \<Rightarrow> (Inl e, [])
         | Inr msg \<Rightarrow>
        (case dict_get data ''history'' of
           Inl e \<Rightarrow> (Inl e, [])
         | Inr h \<Rightarrow>
        (let history = py_or h (JArr [])
         in if msg = []
            then (Inr (Response 400 [(''error'', JStr ''message is required'')]), [])
            else
              (case py_iter history of
                 Inl e \<Rightarrow> (Inl e, [])
               | Inr items \<Rightarrow>
              (let normalized_history = normalize_history items [];
                   messages = [\<lparr>role = ''system'', content = SYSTEM_PROMPT st\<rparr>]
                              @ normalized_history
                              @ [\<lparr>role = ''user'', content = msg\<rparr>];
                   call = \<lparr>call_model = DEFAULT_MODEL st, call_messages = messages\<rparr>
               in case create (DEFAULT_MODEL st) messages of
                    Inl exc \<Rightarrow> (Inr (Response 500 [(''error'', JStr (exc_str exc))]), [call])
                  | Inr completion \<Rightarrow>
                      (case choices completion of
                         [] \<Rightarrow>
                           (Inr (Response 500 [(''error'', JStr ''list index out of range'')]),
                            [call])
                       | reply # _ \<Rightarrow>
                           (Inr (Response 200
                                  [(''reply'', case reply of None \<Rightarrow> JNull | Some t \<Rightarrow> JStr t)]),
                            [call]))))))))"

section \<open>The history filter as the specification words it\<close>

text \<open>
  A history item is accepted when it is a mapping whose \<open>role\<close> is one of "user" and
  "assistant" and whose \<open>content\<close> is a string; the accepted item carries that role and
  that content. The filtered history is the accepted items, in the order they came in.
\<close>

definition spec_history_item :: "json \<Rightarrow> message option" where
  "spec_history_item item =
     (case item of
        JObj kvs \<Rightarrow>
          (case (map_of kvs ''role'', map_of kvs ''content'') of
             (Some (JStr r), Some (JStr c)) \<Rightarrow>
               if r \<in> {''user'', ''assistant''} then Some \<lparr>role = r, content = c\<rparr> else None
           | _ \<Rightarrow> None)
      | _ \<Rightarrow> None)"

definition spec_filtered_history :: "json list \<Rightarrow> message list" where
  "spec_filtered_history items =
     map (\<lambda>item. the (spec_history_item item))
       (filter (\<lambda>item. spec_history_item item \<noteq> None) items)"

section \<open>Example data\<close>

text \<open>
  A text file decodes and is not a PDF; a PDF file has pages and does not decode as
  UTF-8 text; a text file saved in Latin-1 with an accented letter does neither.
\<close>

definition not_a_pdf :: exn where
  "not_a_pdf = PyExc ''PdfStreamError'' ''Stream has ended unexpectedly''"

definition not_utf8 :: exn where
  "not_utf8 =
     PyExc ''UnicodeDecodeError''
       '''utf-8' codec can't decode byte 0xe9 in position 1: invalid continuation byte''"

definition text_file :: "string \<Rightarrow> data_file" where
  "text_file t = \<lparr>read_text = Inr t, pdf_pages = Inl not_a_pdf\<rparr>"

definition pdf_file :: "string option list \<Rightarrow> data_file" where
  "pdf_file pages = \<lparr>read_text = Inl not_utf8, pdf_pages = Inr pages\<rparr>"

definition latin1_file :: data_file where
  "latin1_file = \<lparr>read_text = Inl not_utf8, pdf_pages = Inl not_a_pdf\<rparr>"

definition empty_dir :: data_dir where
  "empty_dir = Map.empty"

definition both_resumes_dir :: data_dir where
  "both_resumes_dir =
     Map.empty(''resume.txt'' \<mapsto> text_file ''Engineer'',
               ''resume.pdf'' \<mapsto> pdf_file [Some ''Resume from the PDF''])"

definition alternate_only_dir :: data_dir where
  "alternate_only_dir =
     Map.empty(''resume.txt'' \<mapsto> text_file '' \<newline>'',
               ''Ashish_Jaiswal.pdf'' \<mapsto>
                 pdf_file [Some ''Page one'', None, Some [], Some ''Page two''])"

definition latin1_resume_dir :: data_dir where
  "latin1_resume_dir = Map.empty(''resume.txt'' \<mapsto> latin1_file)"

definition latin1_linkedin_dir :: data_dir where
  "latin1_linkedin_dir = Map.empty(''linkedin.txt'' \<mapsto> latin1_file)"

definition text_beside_broken_pdf_dir :: data_dir where
  "text_beside_broken_pdf_dir =
     Map.empty(''resume.txt'' \<mapsto> text_file ''Engineer'',
               ''resume.pdf'' \<mapsto> latin1_file)"

definition example_env :: "string \<Rightarrow> string option" where
  "example_env = Map.empty(''OPENAI_API_KEY'' \<mapsto> ''sk-test'', ''PERSON_NAME'' \<mapsto> ''Ada'')"

definition example_state :: app_state where
  "example_state =
     \<lparr>PERSON_NAME = ''Ada'',
      PROFILE_CONTEXT = ''## Resume\<newline>Engineer'',
      DEFAULT_MODEL = ''gpt-4o-mini'',
      SYSTEM_PROMPT = system_prompt_text ''Ada'' ''## Resume\<newline>Engineer''\<rparr>"

definition replying_api :: completion_api where
  "replying_api model messages = Inr (Completion [Some ''Hello'']) "

definition failing_api :: completion_api where
  "failing_api model messages = Inl (PyExc ''APIConnectionError'' ''Connection error.'')"

definition hi_request :: "(string \<times> json) list" where
  "hi_request = [(''message'', JStr ''Hi'')]"

definition hi_with_history :: "(string \<times> json) list" where
  "hi_with_history =
     [(''message'', JStr ''Hi''),
      (''history'',
         JArr [JObj [(''role'', JStr ''system''), (''content'', JStr ''x'')],
               JObj [(''role'', JStr ''user''), (''content'', JStr ''hello'')]])]"

definition mixed_history :: "json list" where
  "mixed_history =
     [JInt 3,
      JObj [(''role'', JStr ''system''), (''content'', JStr ''x'')],
      JObj [(''role'', JStr ''user''), (''content'', JInt 1)],
      JObj [(''role'', JStr ''assistant''), (''content'', JStr ''ok''), (''id'', JInt 7)],
      JStr ''user'',
      JObj [(''content'', JStr ''no role'')],
      JObj [(''role'', JStr ''user''), (''content'', JStr ''hello'')]]"

definition hi_with_mixed_history :: "(string \<times> json) list" where
  "hi_with_mixed_history = [(''message'', JStr '' Hi ''), (''history'', JArr mixed_history)]"

section \<open>Auxiliary facts\<close>

lemma strip_Nil: "strip [] = []"
  by (simp add: strip_def)

text \<open>
  When \<open>load_section\<close> raises, and with which exception: that of the first file it opens
  that cannot be read. A read raises only on a file that is present.
\<close>

lemma load_section_raises_iff:
  "load_section fs name = Inl e \<longleftrightarrow>
     read_text_file fs (name @ ''.txt'') = Inl e \<or>
     (\<exists>t. read_text_file fs (name @ ''.txt'') = Inr t \<and> strip t = [] \<and>
          (read_pdf_file fs (name @ ''.pdf'') = Inl e \<or>
           (\<exists>p. read_pdf_file fs (name @ ''.pdf'') = Inr p \<and> name = ''resume'' \<and>
                strip p = [] \<and> read_pdf_file fs ''Ashish_Jaiswal.pdf'' = Inl e)))"
  by (auto simp: load_section_def split: sum.splits if_splits)

lemma read_raises_present:
  "read_text_file fs path = Inl e \<Longrightarrow> \<exists>f. fs path = Some f \<and> read_text f = Inl e"
  "read_pdf_file fs path = Inl e \<Longrightarrow> \<exists>f. fs path = Some f \<and> pdf_pages f = Inl e"
  by (auto simp: read_text_file_def read_pdf_file_def split: option.splits sum.splits)

lemma normalize_history_step:
  "normalize_history (item # rest) acc =
     normalize_history rest (acc @ (case spec_history_item item of None \<Rightarrow> [] | Some m \<Rightarrow> [m]))"
  by (cases item) (auto simp: spec_history_item_def split: option.splits json.splits)

lemma normalize_history_acc:
  "normalize_history items acc = acc @ spec_filtered_history items"
proof (induction items arbitrary: acc)
  case Nil
  show ?case by (simp add: spec_filtered_history_def)
next
  case (Cons item rest)
  show ?case
    unfolding normalize_history_step Cons.IH
    by (simp add: spec_filtered_history_def split: option.splits)
qed

lemma dict_get_is_dict:
  assumes "dict_get d key = Inr v"
  obtains kvs where "d = JObj kvs"
  using assms by (cases d) auto

text \<open>
  What the handler does with a request that passes validation and whose history can be
  iterated: one call, and a reply that depends on how the call ends.
\<close>

lemma chat_relay:
  assumes "dict_get (JObj kvs) ''message'' = Inr (JStr m)"
    and "strip m \<noteq> []"
    and "dict_get (JObj kvs) ''history'' = Inr h"
    and "py_iter (py_or h (JArr [])) = Inr items"
  shows "chat st create (JObj kvs) =
           (let messages = [\<lparr>role = ''system'', content = SYSTEM_PROMPT st\<rparr>]
                           @ normalize_history items []
                           @ [\<lparr>role = ''user'', content = strip m\<rparr>];
                call = \<lparr>call_model = DEFAULT_MODEL st, call_messages = messages\<rparr>
            in (case create (DEFAULT_MODEL st) messages of
                  Inl exc \<Rightarrow> Inr (Response 500 [(''error'', JStr (exc_str exc))])
                | Inr completion \<Rightarrow>
                    (case choices completion of
                       [] \<Rightarrow> Inr (Response 500 [(''error'', JStr ''list index out of range'')])
                     | reply # _ \<Rightarrow>
                         Inr (Response 200
                               [(''reply'', case reply of None \<Rightarrow> JNull | Some t \<Rightarrow> JStr t)])),
                [call]))"
proof -
  have ne: "kvs \<noteq> []" using assms(1) by auto
  have m: "m \<noteq> []" using assms(2) by (auto simp: strip_def)
  show ?thesis
    using assms ne m
    by (simp add: chat_def py_or_def Let_def split: sum.splits list.splits)
qed

lemma chat_calls_head:
  assumes "c \<in> set (snd (chat st create request_json))"
  shows "call_model c = DEFAULT_MODEL st \<and>
         (\<exists>rest. call_messages c = \<lparr>role = ''system'', content = SYSTEM_PROMPT st\<rparr> # rest)"
  using assms
  by (auto simp: chat_def Let_def split: sum.splits list.splits if_splits)

text \<open>The example data, evaluated.\<close>

lemma strip_Hi: "strip ''Hi'' = ''Hi''" "strip '' Hi '' = ''Hi''" "strip ''  '' = []"
  by (simp_all add: strip_def isspace_def)

lemma strip_Engineer: "strip ''Engineer'' = ''Engineer''" "strip '' \<newline>'' = []"
  by (simp_all add: strip_def isspace_def)

lemma hi_request_fields:
  "dict_get (JObj hi_request) ''message'' = Inr (JStr ''Hi'')"
  "dict_get (JObj hi_request) ''history'' = Inr JNull"
  "py_iter (py_or JNull (JArr [])) = Inr []"
  by (simp_all add: hi_request_def py_or_def)

section \<open>Document loader: the order of the sources\<close>

text \<open>
  C6. For every section name, when the file \<open><name>.txt\<close> exists and its trimmed content
  is not empty, \<open>load_section\<close> returns that content. The PDF files are not used: every
  data directory with the same \<open><name>.txt\<close> gives the same result, whatever else it
  holds.
\<close>

theorem load_section_text_precedence:
  assumes "fs (name @ ''.txt'') = Some f"
    and "read_text f = Inr t"
    and "strip t \<noteq> []"
  shows "load_section fs name = Inr t \<and>
         (\<forall>fs'. fs' (name @ ''.txt'') = fs (name @ ''.txt'') \<longrightarrow> load_section fs' name = Inr t)"
  using assms by (simp add: load_section_def read_text_file_def)

theorem load_section_text_precedence_witness:
  "both_resumes_dir (''resume'' @ ''.txt'') = Some (text_file ''Engineer'') \<and>
   read_text (text_file ''Engineer'') = Inr ''Engineer'' \<and>
   strip ''Engineer'' \<noteq> [] \<and>
   both_resumes_dir ''resume.pdf'' = Some (pdf_file [Some ''Resume from the PDF'']) \<and>
   load_section both_resumes_dir ''resume'' = Inr ''Engineer''"
proof -
  have h1: "both_resumes_dir (''resume'' @ ''.txt'') = Some (text_file ''Engineer'')"
    by (simp add: both_resumes_dir_def)
  have h2: "read_text (text_file ''Engineer'') = Inr ''Engineer''"
    by (simp add: text_file_def)
  have h3: "strip ''Engineer'' \<noteq> []"
    by (simp add: strip_Engineer)
  have h4: "both_resumes_dir ''resume.pdf'' = Some (pdf_file [Some ''Resume from the PDF''])"
    by (simp add: both_resumes_dir_def)
  show ?thesis
    using h1 h2 h3 h4
      load_section_text_precedence
        [of both_resumes_dir "''resume''" "text_file ''Engineer''" "''Engineer''"]
    by simp
qed

text \<open>
  C7. For the section "resume", when \<open>resume.txt\<close> and \<open>resume.pdf\<close> both give empty or
  whitespace-only text (a file that is absent gives the empty text) and the file
  \<open>Ashish_Jaiswal.pdf\<close> exists and can be extracted, \<open>load_section\<close> returns the text
  extracted from it. For every other section name there is no third step: the result is
  the text file's content or else the text of \<open><name>.pdf\<close>, and it does not depend on
  \<open>Ashish_Jaiswal.pdf\<close> (unless the section is itself named "Ashish_Jaiswal", whose own
  PDF that file then is).
\<close>

theorem load_section_resume_fallback:
  assumes "read_text_file fs ''resume.txt'' = Inr t" and "strip t = []"
    and "read_pdf_file fs ''resume.pdf'' = Inr p" and "strip p = []"
    and "fs ''Ashish_Jaiswal.pdf'' = Some f" and "pdf_pages f = Inr pages"
  shows "load_section fs ''resume'' = Inr (join ''\<newline>'' (collect_pages pages []))
         \<and> (\<forall>name fs'. name \<noteq> ''resume'' \<longrightarrow>
               load_section fs' name =
                 (case read_text_file fs' (name @ ''.txt'') of
                    Inl e \<Rightarrow> Inl e
                  | Inr t' \<Rightarrow>
                      if strip t' = [] then read_pdf_file fs' (name @ ''.pdf'') else Inr t'))
         \<and> (\<forall>name x. name \<noteq> ''resume'' \<and> name \<noteq> ''Ashish_Jaiswal'' \<longrightarrow>
               load_section (fs(''Ashish_Jaiswal.pdf'' := x)) name = load_section fs name)"
proof -
  have a: "load_section fs ''resume'' = Inr (join ''\<newline>'' (collect_pages pages []))"
    using assms by (simp add: load_section_def) (simp add: read_pdf_file_def)
  have b: "\<forall>name fs'. name \<noteq> ''resume'' \<longrightarrow>
               load_section fs' name =
                 (case read_text_file fs' (name @ ''.txt'') of
                    Inl e \<Rightarrow> Inl e
                  | Inr t' \<Rightarrow>
                      if strip t' = [] then read_pdf_file fs' (name @ ''.pdf'') else Inr t')"
    by (auto simp: load_section_def split: sum.splits)
  have c: "\<forall>name x. name \<noteq> ''resume'' \<and> name \<noteq> ''Ashish_Jaiswal'' \<longrightarrow>
               load_section (fs(''Ashish_Jaiswal.pdf'' := x)) name = load_section fs name"
    by (auto simp: load_section_def read_text_file_def read_pdf_file_def split: sum.splits)
  from a b c show ?thesis by blast
qed

theorem load_section_resume_fallback_witness:
  "read_text_file alternate_only_dir ''resume.txt'' = Inr '' \<newline>'' \<and>
   strip '' \<newline>'' = [] \<and>
   read_pdf_file alternate_only_dir ''resume.pdf'' = Inr [] \<and>
   strip [] = [] \<and>
   alternate_only_dir ''Ashish_Jaiswal.pdf'' =
     Some (pdf_file [Some ''Page one'', None, Some [], Some ''Page two'']) \<and>
   pdf_pages (pdf_file [Some ''Page one'', None, Some [], Some ''Page two'']) =
     Inr [Some ''Page one'', None, Some [], Some ''Page two''] \<and>
   load_section alternate_only_dir ''resume'' = Inr ''Page one\<newline>Page two'' \<and>
   load_section (alternate_only_dir(''Ashish_Jaiswal.pdf'' := None)) ''linkedin'' =
     load_section alternate_only_dir ''linkedin''"
proof -
  have h1: "read_text_file alternate_only_dir ''resume.txt'' = Inr '' \<newline>''"
    by (simp add: read_text_file_def alternate_only_dir_def text_file_def)
  have h2: "strip '' \<newline>'' = []"
    by (simp add: strip_Engineer)
  have h3: "read_pdf_file alternate_only_dir ''resume.pdf'' = Inr []"
    by (simp add: read_pdf_file_def alternate_only_dir_def)
  have h4: "strip [] = []"
    by (simp add: strip_Nil)
  have h5: "alternate_only_dir ''Ashish_Jaiswal.pdf'' =
              Some (pdf_file [Some ''Page one'', None, Some [], Some ''Page two''])"
    by (simp add: alternate_only_dir_def)
  have h6: "pdf_pages (pdf_file [Some ''Page one'', None, Some [], Some ''Page two'']) =
              Inr [Some ''Page one'', None, Some [], Some ''Page two'']"
    by (simp add: pdf_file_def)
  note fallback = load_section_resume_fallback [OF h1 h2 h3 h4 h5 h6]
  from fallback
  have r: "load_section alternate_only_dir ''resume'' =
             Inr (join ''\<newline>''
                    (collect_pages [Some ''Page one'', None, Some [], Some ''Page two''] []))"
    by (rule conjunct1)
  from fallback
  have "\<forall>name x. name \<noteq> ''resume'' \<and> name \<noteq> ''Ashish_Jaiswal'' \<longrightarrow>
          load_section (alternate_only_dir(''Ashish_Jaiswal.pdf'' := x)) name =
          load_section alternate_only_dir name"
    by (rule conjunct2 [THEN conjunct2])
  then have i: "load_section (alternate_only_dir(''Ashish_Jaiswal.pdf'' := None)) ''linkedin'' =
                  load_section alternate_only_dir ''linkedin''"
    by simp
  have e: "join ''\<newline>''
             (collect_pages [Some ''Page one'', None, Some [], Some ''Page two''] []) =
           ''Page one\<newline>Page two''"
    by simp
  show ?thesis
    using h1 h2 h3 h4 h5 h6 r i unfolding e by blast
qed

section \<open>Document loader: absent and unreadable files\<close>

text \<open>
  A file that is present but cannot be decoded makes \<open>load_section\<close> raise: a
  \<open>linkedin.txt\<close> saved in Latin-1 with an accented letter is not valid UTF-8, and the
  exception of \<open>read_text\<close> reaches the caller.
\<close>

theorem load_section_undecodable_raises:
  "load_section latin1_linkedin_dir ''linkedin'' = Inl not_utf8"
  by (simp add: load_section_def read_text_file_def latin1_linkedin_dir_def latin1_file_def)

text \<open>
  C8, as amended. For every section name, when no source file is found or every
  extraction is empty, \<open>load_section\<close> returns the empty string, and a file that is
  missing is absent content, never an error: both readers give the empty text for it and
  raise only on a file that is present. The function fails the caller in exactly these
  cases, with the exception of the read: \<open><name>.txt\<close> cannot be decoded; or its text
  is absent or blank and \<open><name>.pdf\<close> cannot be parsed; or, for "resume", both are
  absent or blank and \<open>Ashish_Jaiswal.pdf\<close> cannot be parsed.
\<close>

theorem load_section_absent_is_empty:
  "(load_section fs name = Inl e \<longleftrightarrow>
      read_text_file fs (name @ ''.txt'') = Inl e \<or>
      (\<exists>t. read_text_file fs (name @ ''.txt'') = Inr t \<and> strip t = [] \<and>
           (read_pdf_file fs (name @ ''.pdf'') = Inl e \<or>
            (\<exists>p. read_pdf_file fs (name @ ''.pdf'') = Inr p \<and> name = ''resume'' \<and>
                 strip p = [] \<and> read_pdf_file fs ''Ashish_Jaiswal.pdf'' = Inl e))))
   \<and> (\<forall>path.
         (read_text_file fs path = Inl e \<longrightarrow>
            (\<exists>f. fs path = Some f \<and> read_text f = Inl e)) \<and>
         (read_pdf_file fs path = Inl e \<longrightarrow>
            (\<exists>f. fs path = Some f \<and> pdf_pages f = Inl e)) \<and>
         (fs path = None \<longrightarrow>
            read_text_file fs path = Inr [] \<and> read_pdf_file fs path = Inr []))
   \<and> (read_text_file fs (name @ ''.txt'') = Inr t \<and> strip t = [] \<and>
       read_pdf_file fs (name @ ''.pdf'') = Inr [] \<and>
       (name = ''resume'' \<longrightarrow> read_pdf_file fs ''Ashish_Jaiswal.pdf'' = Inr [])
        \<longrightarrow> load_section fs name = Inr [])"
proof -
  have c: "read_text_file fs (name @ ''.txt'') = Inr t \<and> strip t = [] \<and>
       read_pdf_file fs (name @ ''.pdf'') = Inr [] \<and>
       (name = ''resume'' \<longrightarrow> read_pdf_file fs ''Ashish_Jaiswal.pdf'' = Inr [])
        \<longrightarrow> load_section fs name = Inr []"
    by (simp add: load_section_def strip_Nil)
  have b: "\<forall>path.
         (read_text_file fs path = Inl e \<longrightarrow>
            (\<exists>f. fs path = Some f \<and> read_text f = Inl e)) \<and>
         (read_pdf_file fs path = Inl e \<longrightarrow>
            (\<exists>f. fs path = Some f \<and> pdf_pages f = Inl e)) \<and>
         (fs path = None \<longrightarrow>
            read_text_file fs path = Inr [] \<and> read_pdf_file fs path = Inr [])"
    using read_raises_present [of fs _ e]
    by (auto simp: read_text_file_def read_pdf_file_def)
  from load_section_raises_iff [of fs name e] b c show ?thesis by blast
qed

theorem load_section_absent_is_empty_witness:
  "read_text_file empty_dir (''linkedin'' @ ''.txt'') = Inr [] \<and>
   strip [] = [] \<and>
   read_pdf_file empty_dir (''linkedin'' @ ''.pdf'') = Inr [] \<and>
   load_section empty_dir ''linkedin'' = Inr [] \<and>
   read_text_file text_beside_broken_pdf_dir (''resume'' @ ''.txt'') = Inr ''Engineer'' \<and>
   strip ''Engineer'' \<noteq> [] \<and>
   read_pdf_file text_beside_broken_pdf_dir (''resume'' @ ''.pdf'') = Inl not_a_pdf \<and>
   load_section text_beside_broken_pdf_dir ''resume'' \<noteq> Inl not_a_pdf"
proof -
  have h1: "read_text_file empty_dir (''linkedin'' @ ''.txt'') = Inr []"
    by (simp add: read_text_file_def empty_dir_def)
  have h2: "strip [] = []"
    by (simp add: strip_Nil)
  have h3: "read_pdf_file empty_dir (''linkedin'' @ ''.pdf'') = Inr []"
    by (simp add: read_pdf_file_def empty_dir_def)
  have h4: "''linkedin'' = ''resume'' \<longrightarrow> read_pdf_file empty_dir ''Ashish_Jaiswal.pdf'' = Inr []"
    by simp
  have g1: "read_text_file text_beside_broken_pdf_dir (''resume'' @ ''.txt'') = Inr ''Engineer''"
    by (simp add: read_text_file_def text_beside_broken_pdf_dir_def text_file_def)
  have g2: "strip ''Engineer'' \<noteq> []"
    by (simp add: strip_Engineer)
  have g3: "read_pdf_file text_beside_broken_pdf_dir (''resume'' @ ''.pdf'') = Inl not_a_pdf"
    by (simp add: read_pdf_file_def text_beside_broken_pdf_dir_def latin1_file_def)
  from load_section_absent_is_empty [of empty_dir "''linkedin''" not_a_pdf "[]"] h1 h2 h3 h4
  have a: "load_section empty_dir ''linkedin'' = Inr []"
    by blast
  from load_section_absent_is_empty
         [of text_beside_broken_pdf_dir "''resume''" not_a_pdf "[]"] g1 g2
  have b: "load_section text_beside_broken_pdf_dir ''resume'' \<noteq> Inl not_a_pdf"
    by auto
  from h1 h2 h3 a g1 g2 g3 b show ?thesis by blast
qed

section \<open>Profile context\<close>

text \<open>
  With a \<open>resume.txt\<close> that is not valid UTF-8, \<open>build_profile_context\<close> returns no string
  at all: the exception raised while the resume is loaded ends it.
\<close>

theorem build_profile_context_undecodable_raises:
  "build_profile_context latin1_resume_dir = Inl not_utf8"
  by (simp add: build_profile_context_def load_section_def read_text_file_def
      latin1_resume_dir_def latin1_file_def)

text \<open>
  C5, as amended. For all contents of the data directory, \<open>build_profile_context\<close> never
  returns the empty string. Whenever \<open>load_section\<close> returns for "resume" and for
  "linkedin", it returns a non-empty string: the fixed placeholder when neither section
  has text other than whitespace, and otherwise the labelled sections joined by a blank
  line. It raises, and returns nothing, exactly when \<open>load_section\<close> raises for "resume"
  or, after that has returned, for "linkedin"; the exception is the same one.
\<close>

theorem build_profile_context_nonempty:
  "(build_profile_context fs = Inl e \<longleftrightarrow>
      load_section fs ''resume'' = Inl e \<or>
      (\<exists>resume. load_section fs ''resume'' = Inr resume \<and> load_section fs ''linkedin'' = Inl e))
   \<and> (\<forall>s. build_profile_context fs = Inr s \<longrightarrow> s \<noteq> [])
   \<and> (\<forall>resume linkedin.
        load_section fs ''resume'' = Inr resume \<and> load_section fs ''linkedin'' = Inr linkedin \<longrightarrow>
        build_profile_context fs =
          Inr (if strip resume = [] \<and> strip linkedin = [] then no_profile_data
               else join ''\<newline>\<newline>''
                      ((if strip resume \<noteq> [] then [''## Resume\<newline>'' @ resume] else []) @
                       (if strip linkedin \<noteq> []
                        then [''## LinkedIn Profile\<newline>'' @ linkedin] else []))))"
proof -
  have np: "no_profile_data \<noteq> []" by (simp add: no_profile_data_def)
  have a: "build_profile_context fs = Inl e \<longleftrightarrow>
      load_section fs ''resume'' = Inl e \<or>
      (\<exists>resume. load_section fs ''resume'' = Inr resume \<and> load_section fs ''linkedin'' = Inl e)"
    by (auto simp: build_profile_context_def Let_def split: sum.splits)
  have b: "\<forall>s. build_profile_context fs = Inr s \<longrightarrow> s \<noteq> []"
    using np by (auto simp: build_profile_context_def Let_def split: sum.splits if_splits)
  have c: "\<forall>resume linkedin.
        load_section fs ''resume'' = Inr resume \<and> load_section fs ''linkedin'' = Inr linkedin \<longrightarrow>
        build_profile_context fs =
          Inr (if strip resume = [] \<and> strip linkedin = [] then no_profile_data
               else join ''\<newline>\<newline>''
                      ((if strip resume \<noteq> [] then [''## Resume\<newline>'' @ resume] else []) @
                       (if strip linkedin \<noteq> []
                        then [''## LinkedIn Profile\<newline>'' @ linkedin] else [])))"
    by (simp add: build_profile_context_def Let_def)
  from a b c show ?thesis by blast
qed

theorem build_profile_context_nonempty_witness:
  "load_section text_beside_broken_pdf_dir ''resume'' = Inr ''Engineer'' \<and>
   load_section text_beside_broken_pdf_dir ''linkedin'' = Inr [] \<and>
   build_profile_context text_beside_broken_pdf_dir = Inr ''## Resume\<newline>Engineer'' \<and>
   ''## Resume\<newline>Engineer'' \<noteq> []"
proof -
  have r: "load_section text_beside_broken_pdf_dir ''resume'' = Inr ''Engineer''"
    by (simp add: load_section_def read_text_file_def text_beside_broken_pdf_dir_def
        text_file_def strip_Engineer)
  have l: "load_section text_beside_broken_pdf_dir ''linkedin'' = Inr []"
    by (simp add: load_section_def read_text_file_def read_pdf_file_def
        text_beside_broken_pdf_dir_def strip_Nil)
  note ctx = build_profile_context_nonempty [of text_beside_broken_pdf_dir not_a_pdf]
  from ctx r l
  have "build_profile_context text_beside_broken_pdf_dir =
          Inr (if strip ''Engineer'' = [] \<and> strip [] = [] then no_profile_data
               else join ''\<newline>\<newline>''
                      ((if strip ''Engineer'' \<noteq> [] then [''## Resume\<newline>'' @ ''Engineer'']
                        else []) @
                       (if strip [] \<noteq> [] then [''## LinkedIn Profile\<newline>'' @ []] else [])))"
    by blast
  then have b: "build_profile_context text_beside_broken_pdf_dir =
                  Inr ''## Resume\<newline>Engineer''"
    by (simp add: strip_Engineer strip_Nil)
  from ctx b have n: "''## Resume\<newline>Engineer'' \<noteq> []"
    by blast
  from r l b n show ?thesis by blast
qed

section \<open>Chat relay: validation of the message\<close>

text \<open>
  C2. For every chat request (a JSON object, or a body with a false truth value, which
  the handler replaces by the empty object) whose message field is missing, empty
  (\<open>null\<close>, or any other value with a false truth value) or a string that is empty after
  trimming, the handler returns the reply \<open>{"error": "message is required"}\<close> with
  status 400, and the completion service is not called.
\<close>

theorem chat_message_required:
  assumes "dict_get (py_or request_json (JObj [])) ''message'' = Inr v"
    and "\<not> truthy v \<or> (\<exists>s. v = JStr s \<and> strip s = [])"
  shows "chat st create request_json =
           (Inr (Response 400 [(''error'', JStr ''message is required'')]), [])"
proof -
  obtain kvs where d: "py_or request_json (JObj []) = JObj kvs"
    using assms(1) by (rule dict_get_is_dict)
  have "str_strip (py_or v (JStr [])) = Inr []"
    using assms(2) by (auto simp: py_or_def strip_Nil)
  then show ?thesis
    using assms(1) d by (simp add: chat_def)
qed

theorem chat_message_required_witness:
  "dict_get (py_or (JObj [(''message'', JStr ''  '')]) (JObj [])) ''message'' = Inr (JStr ''  '') \<and>
   strip ''  '' = [] \<and>
   chat example_state replying_api (JObj [(''message'', JStr ''  '')]) =
     (Inr (Response 400 [(''error'', JStr ''message is required'')]), [])"
proof -
  have h1: "dict_get (py_or (JObj [(''message'', JStr ''  '')]) (JObj [])) ''message'' =
              Inr (JStr ''  '')"
    by (simp add: py_or_def)
  have h2: "\<not> truthy (JStr ''  '') \<or> (\<exists>s. JStr ''  '' = JStr s \<and> strip s = [])"
    by (simp add: strip_Hi)
  show ?thesis
    using h1 chat_message_required [OF h1 h2, of example_state replying_api]
    by (simp add: strip_Hi)
qed

text \<open>
  C10. For a chat request whose message field is a value with a true truth value that
  is not a string (a number other than zero, \<open>true\<close>, a non-empty list or object), the
  handler raises \<open>AttributeError\<close> while normalising the message: no reply is produced,
  neither the validation error nor any other, and the completion service is not called.
\<close>

theorem chat_non_string_message_raises:
  assumes "dict_get (py_or request_json (JObj [])) ''message'' = Inr v"
    and "truthy v"
    and "\<forall>s. v \<noteq> JStr s"
  shows "chat st create request_json =
           (Inl (PyExc ''AttributeError''
                  (quoted (type_name v) @ '' object has no attribute '' @ quoted ''strip'')), [])"
proof -
  have "str_strip (py_or v (JStr [])) = Inl (no_attribute v ''strip'')"
    using assms(2,3) by (cases v) (auto simp: py_or_def)
  then show ?thesis
    using assms(1) by (simp add: chat_def no_attribute_def)
qed

theorem chat_non_string_message_raises_witness:
  "dict_get (py_or (JObj [(''message'', JInt 5)]) (JObj [])) ''message'' = Inr (JInt 5) \<and>
   truthy (JInt 5) \<and>
   (\<forall>s. JInt 5 \<noteq> JStr s) \<and>
   chat example_state replying_api (JObj [(''message'', JInt 5)]) =
     (Inl (PyExc ''AttributeError'' (CHR 0x27 # ''int'' @ CHR 0x27 # '' object has no attribute '' @
                                CHR 0x27 # ''strip'' @ [CHR 0x27])),
      [])"
proof -
  have h1: "dict_get (py_or (JObj [(''message'', JInt 5)]) (JObj [])) ''message'' = Inr (JInt 5)"
    by (simp add: py_or_def)
  have h2: "truthy (JInt 5)"
    by simp
  have h3: "\<forall>s. JInt 5 \<noteq> JStr s"
    by simp
  show ?thesis
    using h1 h2 h3 chat_non_string_message_raises [OF h1 h2 h3, of example_state replying_api]
    by (simp add: quoted_def)
qed

section \<open>Chat relay: the history and the outgoing messages\<close>

text \<open>
  C4. For every history sequence supplied in a chat request with a valid message (a
  list, or any other value that Python can iterate), each item that is not a mapping,
  or whose role is not "user" or "assistant", or whose content is not a string, is left
  out of the normalised history, and the items that conform are kept in their original
  order. The request is not rejected: the handler goes on to the completion call with
  that history and its reply is not the validation error.
\<close>

theorem chat_history_items_dropped:
  assumes "dict_get (JObj kvs) ''message'' = Inr (JStr m)"
    and "strip m \<noteq> []"
    and "dict_get (JObj kvs) ''history'' = Inr h"
    and "py_iter (py_or h (JArr [])) = Inr items"
  shows "normalize_history items [] =
           map (\<lambda>item. the (spec_history_item item))
             (filter (\<lambda>item. spec_history_item item \<noteq> None) items)
         \<and> (\<exists>resp. fst (chat st create (JObj kvs)) = Inr resp \<and> status resp \<noteq> 400)
         \<and> map call_messages (snd (chat st create (JObj kvs))) =
             [[\<lparr>role = ''system'', content = SYSTEM_PROMPT st\<rparr>]
              @ normalize_history items []
              @ [\<lparr>role = ''user'', content = strip m\<rparr>]]"
proof -
  note unfolded = chat_relay [OF assms]
  have a: "normalize_history items [] =
           map (\<lambda>item. the (spec_history_item item))
             (filter (\<lambda>item. spec_history_item item \<noteq> None) items)"
    using normalize_history_acc [of items "[]"] by (simp add: spec_filtered_history_def)
  have b: "\<exists>resp. fst (chat st create (JObj kvs)) = Inr resp \<and> status resp \<noteq> 400"
    by (simp add: unfolded Let_def split: sum.splits list.splits)
  have c: "map call_messages (snd (chat st create (JObj kvs))) =
             [[\<lparr>role = ''system'', content = SYSTEM_PROMPT st\<rparr>]
              @ normalize_history items []
              @ [\<lparr>role = ''user'', content = strip m\<rparr>]]"
    by (simp add: unfolded Let_def)
  from a b c show ?thesis by blast
qed

theorem chat_history_items_dropped_witness:
  "dict_get (JObj hi_with_mixed_history) ''message'' = Inr (JStr '' Hi '') \<and>
   strip '' Hi '' \<noteq> [] \<and>
   dict_get (JObj hi_with_mixed_history) ''history'' = Inr (JArr mixed_history) \<and>
   py_iter (py_or (JArr mixed_history) (JArr [])) = Inr mixed_history \<and>
   normalize_history mixed_history [] =
     [\<lparr>role = ''assistant'', content = ''ok''\<rparr>, \<lparr>role = ''user'', content = ''hello''\<rparr>] \<and>
   fst (chat example_state replying_api (JObj hi_with_mixed_history)) =
     Inr (Response 200 [(''reply'', JStr ''Hello'')]) \<and>
   map call_messages (snd (chat example_state replying_api (JObj hi_with_mixed_history))) =
     [[\<lparr>role = ''system'', content = SYSTEM_PROMPT example_state\<rparr>,
       \<lparr>role = ''assistant'', content = ''ok''\<rparr>,
       \<lparr>role = ''user'', content = ''hello''\<rparr>,
       \<lparr>role = ''user'', content = ''Hi''\<rparr>]]"
proof -
  have h1: "dict_get (JObj hi_with_mixed_history) ''message'' = Inr (JStr '' Hi '')"
    by (simp add: hi_with_mixed_history_def)
  have h2: "strip '' Hi '' \<noteq> []"
    by (simp add: strip_Hi)
  have h3: "dict_get (JObj hi_with_mixed_history) ''history'' = Inr (JArr mixed_history)"
    by (simp add: hi_with_mixed_history_def)
  have n: "normalize_history mixed_history [] =
             [\<lparr>role = ''assistant'', content = ''ok''\<rparr>, \<lparr>role = ''user'', content = ''hello''\<rparr>]"
    by (simp add: mixed_history_def)
  have it: "py_iter (py_or (JArr mixed_history) (JArr [])) = Inr mixed_history"
    by (simp add: py_or_def)
  have f: "fst (chat example_state replying_api (JObj hi_with_mixed_history)) =
             Inr (Response 200 [(''reply'', JStr ''Hello'')])"
    by (simp add: chat_relay [OF h1 h2 h3 it] Let_def replying_api_def)
  show ?thesis
    using h1 h2 h3 it n f
      chat_history_items_dropped [OF h1 h2 h3 it, of example_state replying_api]
    by (simp add: strip_Hi)
qed

text \<open>
  C1. For every chat request whose message is not empty after trimming (and whose
  history, when it is given, is a sequence), the handler calls the completion service
  once, and the message sequence it sends is exactly: the system message with the
  system prompt, then the filtered history in its original order, then the user message
  with the trimmed text.
\<close>

theorem chat_outgoing_messages:
  assumes "dict_get (JObj kvs) ''message'' = Inr (JStr m)"
    and "strip m \<noteq> []"
    and "dict_get (JObj kvs) ''history'' = Inr h"
    and "py_iter (py_or h (JArr [])) = Inr items"
  shows "map call_messages (snd (chat st create (JObj kvs))) =
           [[\<lparr>role = ''system'', content = SYSTEM_PROMPT st\<rparr>]
            @ spec_filtered_history items
            @ [\<lparr>role = ''user'', content = strip m\<rparr>]]"
  by (simp add: chat_relay [OF assms] Let_def normalize_history_acc)

theorem chat_outgoing_messages_witness:
  "dict_get (JObj hi_with_history) ''message'' = Inr (JStr ''Hi'') \<and>
   strip ''Hi'' \<noteq> [] \<and>
   dict_get (JObj hi_with_history) ''history'' =
     Inr (JArr [JObj [(''role'', JStr ''system''), (''content'', JStr ''x'')],
                JObj [(''role'', JStr ''user''), (''content'', JStr ''hello'')]]) \<and>
   map call_messages (snd (chat example_state replying_api (JObj hi_with_history))) =
     [[\<lparr>role = ''system'', content = SYSTEM_PROMPT example_state\<rparr>,
       \<lparr>role = ''user'', content = ''hello''\<rparr>,
       \<lparr>role = ''user'', content = ''Hi''\<rparr>]]"
proof -
  let ?items = "[JObj [(''role'', JStr ''system''), (''content'', JStr ''x'')],
                 JObj [(''role'', JStr ''user''), (''content'', JStr ''hello'')]]"
  have h1: "dict_get (JObj hi_with_history) ''message'' = Inr (JStr ''Hi'')"
    by (simp add: hi_with_history_def)
  have h2: "strip ''Hi'' \<noteq> []"
    by (simp add: strip_Hi)
  have h3: "dict_get (JObj hi_with_history) ''history'' = Inr (JArr ?items)"
    by (simp add: hi_with_history_def)
  have h4: "py_iter (py_or (JArr ?items) (JArr [])) = Inr ?items"
    by (simp add: py_or_def)
  have sf: "spec_filtered_history ?items = [\<lparr>role = ''user'', content = ''hello''\<rparr>]"
    by (simp add: spec_filtered_history_def spec_history_item_def)
  show ?thesis
    using h1 h2 h3 sf
      chat_outgoing_messages [OF h1 h2 h3 h4, of example_state replying_api]
    by (simp add: strip_Hi)
qed

section \<open>Chat relay: a failing completion call\<close>

text \<open>
  C3. For every chat request, when the handler calls the completion service and the
  call raises an exception, the handler catches it and returns the reply
  \<open>{"error": str(exc)}\<close> with status 500; nothing is raised to the caller, and the call
  that failed is the only one made (there is no retry).
\<close>

theorem chat_upstream_failure:
  assumes "c \<in> set (snd (chat st create request_json))"
    and "create (call_model c) (call_messages c) = Inl exc"
  shows "chat st create request_json =
           (Inr (Response 500 [(''error'', JStr (exc_str exc))]), [c])"
  using assms
  by (auto simp: chat_def Let_def split: sum.splits list.splits if_splits)

theorem chat_upstream_failure_witness:
  "\<lparr>call_model = ''gpt-4o-mini'',
    call_messages = [\<lparr>role = ''system'', content = SYSTEM_PROMPT example_state\<rparr>,
                     \<lparr>role = ''user'', content = ''Hi''\<rparr>]\<rparr>
     \<in> set (snd (chat example_state failing_api (JObj hi_request))) \<and>
   failing_api ''gpt-4o-mini''
     [\<lparr>role = ''system'', content = SYSTEM_PROMPT example_state\<rparr>,
      \<lparr>role = ''user'', content = ''Hi''\<rparr>] =
     Inl (PyExc ''APIConnectionError'' ''Connection error.'') \<and>
   chat example_state failing_api (JObj hi_request) =
     (Inr (Response 500 [(''error'', JStr ''Connection error.'')]),
      [\<lparr>call_model = ''gpt-4o-mini'',
        call_messages = [\<lparr>role = ''system'', content = SYSTEM_PROMPT example_state\<rparr>,
                         \<lparr>role = ''user'', content = ''Hi''\<rparr>]\<rparr>])"
proof -
  let ?c = "\<lparr>call_model = ''gpt-4o-mini'',
             call_messages = [\<lparr>role = ''system'', content = SYSTEM_PROMPT example_state\<rparr>,
                              \<lparr>role = ''user'', content = ''Hi''\<rparr>]\<rparr>"
  have run: "snd (chat example_state failing_api (JObj hi_request)) = [?c]"
    by (simp add: chat_relay [OF hi_request_fields(1) _ hi_request_fields(2,3)]
        strip_Hi Let_def failing_api_def example_state_def)
  have h1: "?c \<in> set (snd (chat example_state failing_api (JObj hi_request)))"
    by (simp add: run)
  have h2: "failing_api (call_model ?c) (call_messages ?c) =
              Inl (PyExc ''APIConnectionError'' ''Connection error.'')"
    by (simp add: failing_api_def)
  show ?thesis
    using h1 h2 chat_upstream_failure [OF h1 h2] by simp
qed

section \<open>The system prompt is fixed at process start\<close>

text \<open>
  C9. The system prompt is computed once, when the process starts, from the persona
  name and the profile context. Every request is handled with that value: for any two
  chat requests, whatever their messages and histories and however the completion
  service answers, every message sequence that is sent starts with the same system
  message, whose content is the system prompt of the process.
\<close>

theorem system_prompt_constant:
  assumes "startup env fs = Inr st"
    and "c1 \<in> set (snd (chat st create1 request1))"
    and "c2 \<in> set (snd (chat st create2 request2))"
  shows "hd (call_messages c1) = \<lparr>role = ''system'', content = SYSTEM_PROMPT st\<rparr>
         \<and> hd (call_messages c2) = hd (call_messages c1)
         \<and> (\<exists>profile. build_profile_context fs = Inr profile \<and>
               SYSTEM_PROMPT st =
                 system_prompt_text (getenv env ''PERSON_NAME'' ''Your Name'') profile)"
proof -
  from chat_calls_head [OF assms(2)] chat_calls_head [OF assms(3)]
  have h: "hd (call_messages c1) = \<lparr>role = ''system'', content = SYSTEM_PROMPT st\<rparr>"
          "hd (call_messages c2) = hd (call_messages c1)"
    by auto
  from assms(1) have "\<exists>profile. build_profile_context fs = Inr profile \<and>
               SYSTEM_PROMPT st =
                 system_prompt_text (getenv env ''PERSON_NAME'' ''Your Name'') profile"
    by (auto simp: startup_def Let_def split: if_splits sum.splits)
  with h show ?thesis by blast
qed

theorem system_prompt_constant_witness:
  "startup example_env both_resumes_dir = Inr example_state \<and>
   \<lparr>call_model = ''gpt-4o-mini'',
    call_messages = [\<lparr>role = ''system'', content = SYSTEM_PROMPT example_state\<rparr>,
                     \<lparr>role = ''user'', content = ''Hi''\<rparr>]\<rparr>
     \<in> set (snd (chat example_state replying_api (JObj hi_request))) \<and>
   \<lparr>call_model = ''gpt-4o-mini'',
    call_messages = [\<lparr>role = ''system'', content = SYSTEM_PROMPT example_state\<rparr>,
                     \<lparr>role = ''user'', content = ''hello''\<rparr>,
                     \<lparr>role = ''user'', content = ''Hi''\<rparr>]\<rparr>
     \<in> set (snd (chat example_state failing_api (JObj hi_with_history))) \<and>
   hd [\<lparr>role = ''system'', content = SYSTEM_PROMPT example_state\<rparr>,
       \<lparr>role = ''user'', content = ''hello''\<rparr>,
       \<lparr>role = ''user'', content = ''Hi''\<rparr>] =
   hd [\<lparr>role = ''system'', content = SYSTEM_PROMPT example_state\<rparr>,
       \<lparr>role = ''user'', content = ''Hi''\<rparr>] \<and>
   SYSTEM_PROMPT example_state = system_prompt_text ''Ada'' ''## Resume\<newline>Engineer''"
proof -
  let ?c1 = "\<lparr>call_model = ''gpt-4o-mini'',
              call_messages = [\<lparr>role = ''system'', content = SYSTEM_PROMPT example_state\<rparr>,
                               \<lparr>role = ''user'', content = ''Hi''\<rparr>]\<rparr>"
  let ?c2 = "\<lparr>call_model = ''gpt-4o-mini'',
              call_messages = [\<lparr>role = ''system'', content = SYSTEM_PROMPT example_state\<rparr>,
                               \<lparr>role = ''user'', content = ''hello''\<rparr>,
                               \<lparr>role = ''user'', content = ''Hi''\<rparr>]\<rparr>"
  let ?items = "[JObj [(''role'', JStr ''system''), (''content'', JStr ''x'')],
                 JObj [(''role'', JStr ''user''), (''content'', JStr ''hello'')]]"
  have r: "load_section both_resumes_dir ''resume'' = Inr ''Engineer''"
    by (simp add: load_section_def read_text_file_def both_resumes_dir_def text_file_def
        strip_Engineer)
  have l: "load_section both_resumes_dir ''linkedin'' = Inr []"
    by (simp add: load_section_def read_text_file_def read_pdf_file_def both_resumes_dir_def
        strip_Nil)
  have b: "build_profile_context both_resumes_dir = Inr ''## Resume\<newline>Engineer''"
    by (simp add: build_profile_context_def r l strip_Engineer strip_Nil)
  have h1: "startup example_env both_resumes_dir = Inr example_state"
    by (simp add: startup_def b getenv_def example_env_def example_state_def Let_def)
  have h2: "?c1 \<in> set (snd (chat example_state replying_api (JObj hi_request)))"
    by (simp add: chat_relay [OF hi_request_fields(1) _ hi_request_fields(2,3)]
        strip_Hi Let_def replying_api_def example_state_def)
  have m: "dict_get (JObj hi_with_history) ''message'' = Inr (JStr ''Hi'')"
    by (simp add: hi_with_history_def)
  have hh: "dict_get (JObj hi_with_history) ''history'' = Inr (JArr ?items)"
    by (simp add: hi_with_history_def)
  have it: "py_iter (py_or (JArr ?items) (JArr [])) = Inr ?items"
    by (simp add: py_or_def)
  have h3: "?c2 \<in> set (snd (chat example_state failing_api (JObj hi_with_history)))"
    by (simp add: chat_relay [OF m _ hh it] strip_Hi Let_def failing_api_def example_state_def)
  have p: "SYSTEM_PROMPT example_state = system_prompt_text ''Ada'' ''## Resume\<newline>Engineer''"
    by (simp add: example_state_def)
  from system_prompt_constant [OF h1 h2 h3]
  have "hd (call_messages ?c2) = hd (call_messages ?c1)"
    by blast
  then have e: "hd [\<lparr>role = ''system'', content = SYSTEM_PROMPT example_state\<rparr>,
                    \<lparr>role = ''user'', content = ''hello''\<rparr>,
                    \<lparr>role = ''user'', content = ''Hi''\<rparr>] =
                hd [\<lparr>role = ''system'', content = SYSTEM_PROMPT example_state\<rparr>,
                    \<lparr>role = ''user'', content = ''Hi''\<rparr>]"
    by (simp del: list.sel)
  from h1 h2 h3 e p show ?thesis by blast
qed

end
